theory Spec2Isabelle
  imports Main "HOL-Library.Word" "HOL-Library.AList"
begin

unbundle bit_operations_syntax

section \<open>Memo tracking: the data model of Memo.py\<close>

text \<open>
  The program keeps one workbook of memo records (\<open>memos/records/memo_records.xlsx\<close>),
  read with \<open>pd.read_excel\<close> and written with \<open>DataFrame.to_excel\<close>, and two folders
  of binary files. A workbook cell holds a scalar; a frame in memory may also hold a Python
  list in a cell (the History of a memo). Text is a list of characters with code points
  below 256.
\<close>

datatype entry = Entry (e_date: string) (e_action: string) (e_to: string)
  (e_comment: string) (e_attachment: "string option")

datatype scalar = Missing | Str string | Day nat nat nat

datatype cell = Scalar scalar | PyList "entry list"

record 'c frame =
  columns :: "string list"
  rows :: "(string \<Rightarrow> 'c) list"

type_synonym pydict = "(string \<times> scalar) list"

type_synonym bytes = "8 word list"

datatype blob = Uploaded bytes | Stamped blob string

datatype exn = OSError string | IndexError | KeyError string | ValueError string

datatype message = Error_msg string | Success_msg string | Info_msg string

datatype outcome = Raised exn | Shown message | Idle

record filesystem =
  workbook :: "scalar frame option"
  files :: "string \<Rightarrow> blob option"

text \<open>
  What the program cannot decide is a parameter: which paths can be written at the moment
  of a write, and which stored files open as a document or an image.
\<close>

record env =
  can_write :: "string \<Rightarrow> bool"
  opens :: "blob \<Rightarrow> bool"

definition memo_file :: string where
  "memo_file = ''memos/records/memo_records.xlsx''"

definition scanned_folder :: string where
  "scanned_folder = ''memos/scanned/''"

section \<open>Python strings\<close>

definition is_space :: "char \<Rightarrow> bool" where
  "is_space c = (let n = (of_char c :: nat) in
     (9 \<le> n \<and> n \<le> 13) \<or> (28 \<le> n \<and> n \<le> 32) \<or> n = 133 \<or> n = 160)"

definition strip :: "string \<Rightarrow> string" where
  "strip s = rev (dropWhile is_space (rev (dropWhile is_space s)))"

definition lower_char :: "char \<Rightarrow> char" where
  "lower_char c = (let n = (of_char c :: nat) in
     if (65 \<le> n \<and> n \<le> 90) \<or> (192 \<le> n \<and> n \<le> 222 \<and> n \<noteq> 215)
     then char_of (n + 32) else c)"

definition lower :: "string \<Rightarrow> string" where
  "lower s = map lower_char s"

fun replace_aux :: "nat \<Rightarrow> string \<Rightarrow> string \<Rightarrow> string \<Rightarrow> string" where
  "replace_aux k old new [] = []"
| "replace_aux (Suc k) old new (c # s) = replace_aux k old new s"
| "replace_aux 0 old new (c # s) =
     (if take (length old) (c # s) = old
      then new @ replace_aux (length old - 1) old new s
      else c # replace_aux 0 old new s)"

definition replace :: "string \<Rightarrow> string \<Rightarrow> string \<Rightarrow> string" where
  \<comment> \<open>\<open>s.replace(old, new)\<close>: every occurrence, left to right, without overlap\<close>
  "replace old new s =
     (if old = [] then new @ concat (map (\<lambda>c. c # new) s) else replace_aux 0 old new s)"

definition split_last :: "char \<Rightarrow> string \<Rightarrow> string" where
  \<comment> \<open>\<open>s.split(sep)[-1]\<close>: what follows the last separator, all of \<open>s\<close> without one\<close>
  "split_last sep s = rev (takeWhile (\<lambda>c. c \<noteq> sep) (rev s))"

definition path_join :: "string \<Rightarrow> string \<Rightarrow> string" where
  \<comment> \<open>\<open>os.path.join(a, b)\<close> on POSIX\<close>
  "path_join a b =
     (if b \<noteq> [] \<and> hd b = CHR ''/'' then b
      else if a = [] \<or> last a = CHR ''/'' then a @ b
      else a @ ''/'' @ b)"

fun digits_of :: "nat \<Rightarrow> string" where
  \<comment> \<open>\<open>str\<close> of a non-negative integer\<close>
  "digits_of n =
     (if n < 10 then [''0123456789'' ! n]
      else digits_of (n div 10) @ [''0123456789'' ! (n mod 10)])"

declare digits_of.simps [simp del]

definition pad :: "nat \<Rightarrow> nat \<Rightarrow> string" where
  \<comment> \<open>decimal, zero-filled on the left to a width\<close>
  "pad w n = replicate (w - length (digits_of n)) CHR ''0'' @ digits_of n"

definition hex2 :: "nat \<Rightarrow> string" where
  "hex2 n = [''0123456789abcdef'' ! (n div 16 mod 16), ''0123456789abcdef'' ! (n mod 16)]"

definition printable :: "char \<Rightarrow> bool" where
  "printable c = (let n = (of_char c :: nat) in (32 \<le> n \<and> n < 127) \<or> (161 \<le> n \<and> n \<noteq> 173))"

definition escape_char :: "char \<Rightarrow> char \<Rightarrow> string" where
  "escape_char q c =
     (if c = q \<or> c = CHR 0x5C then [CHR 0x5C, c]
      else if c = CHR 0x09 then [CHR 0x5C, CHR ''t'']
      else if c = CHR 0x0A then [CHR 0x5C, CHR ''n'']
      else if c = CHR 0x0D then [CHR 0x5C, CHR ''r'']
      else if printable c then [c]
      else [CHR 0x5C, CHR ''x''] @ hex2 (of_char c))"

definition py_repr :: "string \<Rightarrow> string" where
  \<comment> \<open>\<open>repr\<close> of a \<open>str\<close>: double quotes only when the text has a single quote and no double one\<close>
  "py_repr s =
     (let q = (if CHR 0x27 \<in> set s \<and> CHR 0x22 \<notin> set s then CHR 0x22 else CHR 0x27)
      in q # concat (map (escape_char q) s) @ [q])"

definition repr_entry :: "entry \<Rightarrow> string" where
  \<comment> \<open>\<open>repr\<close> of the history dict, keys in insertion order\<close>
  "repr_entry e =
     ''{'Date': '' @ py_repr (e_date e) @ '', 'Action': '' @ py_repr (e_action e)
     @ '', 'To': '' @ py_repr (e_to e) @ '', 'Comment': '' @ py_repr (e_comment e)
     @ '', 'Attachment': '' @ (case e_attachment e of None \<Rightarrow> ''None'' | Some a \<Rightarrow> py_repr a)
     @ ''}''"

fun join_with :: "string \<Rightarrow> string list \<Rightarrow> string" where
  "join_with sep [] = []"
| "join_with sep [x] = x"
| "join_with sep (x # y # ys) = x @ sep @ join_with sep (y # ys)"

definition str_list :: "entry list \<Rightarrow> string" where
  \<comment> \<open>\<open>str\<close> of a list of history dicts\<close>
  "str_list h = ''['' @ join_with '', '' (map repr_entry h) @ '']''"

definition str_scalar :: "scalar \<Rightarrow> string" where
  \<comment> \<open>what an f-string prints for a cell read from the workbook\<close>
  "str_scalar v = (case v of
       Missing \<Rightarrow> ''nan''
     | Str s \<Rightarrow> s
     | Day y m d \<Rightarrow> pad 4 y @ ''-'' @ pad 2 m @ ''-'' @ pad 2 d @ '' 00:00:00'')"

definition str_cell :: "cell \<Rightarrow> string" where
  "str_cell x = (case x of Scalar v \<Rightarrow> str_scalar v | PyList h \<Rightarrow> str_list h)"

section \<open>Frames\<close>

text \<open>
  A frame is its list of column names and its rows; a row gives the cell under every name,
  and a cell outside the frame's columns is missing. The table kept for the records file is
  the table \<open>read_excel\<close> returns for it: a scalar is read back as it was written, and a
  Python list is written as the text \<open>str\<close> gives for it, since a workbook cell holds no
  list. The three folders exist: the script creates them when it starts.
\<close>

definition isna :: "cell \<Rightarrow> bool" where
  "isna x = (x = Scalar Missing)"

definition is_list :: "cell \<Rightarrow> bool" where
  \<comment> \<open>\<open>isinstance(x, list)\<close>\<close>
  "is_list x = (case x of PyList h \<Rightarrow> True | Scalar v \<Rightarrow> False)"

definition frame_empty :: "'c frame \<Rightarrow> bool" where
  \<comment> \<open>\<open>df.empty\<close>: an axis of length 0\<close>
  "frame_empty df = (rows df = [] \<or> columns df = [])"

definition empty_frame :: "cell frame" where
  \<comment> \<open>\<open>pd.DataFrame()\<close>\<close>
  "empty_frame = \<lparr>columns = [], rows = []\<rparr>"

definition dict_get :: "pydict \<Rightarrow> string \<Rightarrow> scalar" where
  \<comment> \<open>the value under a key, missing without the key\<close>
  "dict_get data c = (case map_of data c of None \<Rightarrow> Missing | Some v \<Rightarrow> v)"

definition DataFrame :: "pydict \<Rightarrow> cell frame" where
  \<comment> \<open>\<open>pd.DataFrame([data])\<close>: one row, the keys of the dict as columns\<close>
  "DataFrame data = \<lparr>columns = map fst data, rows = [\<lambda>c. Scalar (dict_get data c)]\<rparr>"

definition stored_at :: "scalar frame \<Rightarrow> nat \<Rightarrow> string \<Rightarrow> scalar" where
  \<comment> \<open>the cell of a stored table as it is read: missing outside the table's columns\<close>
  "stored_at x i c = (if c \<in> set (columns x) then (rows x ! i) c else Missing)"

definition pd_concat :: "cell frame \<Rightarrow> cell frame \<Rightarrow> cell frame" where
  \<comment> \<open>\<open>pd.concat([a, b], ignore_index=True)\<close>: the union of the columns, a cell outside
      a frame's own columns missing\<close>
  "pd_concat a b =
     \<lparr>columns = columns a @ filter (\<lambda>c. c \<notin> set (columns a)) (columns b),
      rows = rows a @ rows b\<rparr>"

definition read_excel :: "scalar frame \<Rightarrow> cell frame" where
  "read_excel x =
     \<lparr>columns = columns x,
      rows = map (\<lambda>r c. if c \<in> set (columns x) then Scalar (r c) else Scalar Missing) (rows x)\<rparr>"

definition excel_cell :: "cell \<Rightarrow> scalar" where
  \<comment> \<open>the Excel writer stores \<open>str(val)\<close> for a value that is no number, boolean or date\<close>
  "excel_cell x = (case x of Scalar v \<Rightarrow> v | PyList h \<Rightarrow> Str (str_list h))"

definition excel_frame :: "cell frame \<Rightarrow> scalar frame" where
  "excel_frame df =
     \<lparr>columns = columns df,
      rows = map (\<lambda>r c. if c \<in> set (columns df) then excel_cell (r c) else Missing) (rows df)\<rparr>"

definition to_excel :: "env \<Rightarrow> cell frame \<Rightarrow> filesystem \<Rightarrow> exn + filesystem" where
  \<comment> \<open>\<open>df.to_excel(memo_file, index=False)\<close>: the whole file is replaced\<close>
  "to_excel e df fs =
     (if can_write e memo_file then Inr (fs\<lparr>workbook := Some (excel_frame df)\<rparr>)
      else Inl (OSError memo_file))"

definition write_file :: "env \<Rightarrow> string \<Rightarrow> blob \<Rightarrow> filesystem \<Rightarrow> exn + filesystem" where
  \<comment> \<open>\<open>with open(path, "wb") as f: f.write(...)\<close>\<close>
  "write_file e path b fs =
     (if can_write e path then Inr (fs\<lparr>files := (files fs)(path \<mapsto> b)\<rparr>)
      else Inl (OSError path))"

definition ensure_history :: "cell frame \<Rightarrow> cell frame" where
  \<comment> \<open>the four lines under "Ensure History column exists", the same in
      \<open>save_memo_record\<close> and \<open>load_memos\<close>; the value tested by \<open>pd.isna\<close> is a
      scalar at both places\<close>
  "ensure_history df =
     (if ''History'' \<notin> set (columns df)
      then \<lparr>columns = columns df @ [''History''],
            rows = map (\<lambda>r. r(''History'' := PyList [])) (rows df)\<rparr>
      else \<lparr>columns = columns df,
            rows = map (\<lambda>r. r(''History'' := (if isna (r ''History'') then PyList [] else r ''History'')))
                     (rows df)\<rparr>)"

definition stored_row :: "string set \<Rightarrow> (string \<Rightarrow> cell) \<Rightarrow> string \<Rightarrow> scalar" where
  \<comment> \<open>what \<open>ensure_history\<close> and then \<open>to_excel\<close> make of a row of a frame with the
      columns \<open>cols\<close> (a lemma below)\<close>
  "stored_row cols r c =
     (if c = ''History''
      then (if ''History'' \<in> cols \<and> \<not> isna (r ''History'')
            then excel_cell (r ''History'') else Str ''[]'')
      else if c \<in> cols then excel_cell (r c) else Missing)"

section \<open>Helper functions\<close>

definition uuid4_int :: "128 word \<Rightarrow> nat" where
  \<comment> \<open>\<open>uuid.uuid4().int\<close> from 16 random bytes: variant and version bits forced\<close>
  "uuid4_int r =
     unat ((((r AND NOT (push_bit 48 0xc000)) OR push_bit 48 0x8000)
             AND NOT (push_bit 64 0xf000)) OR push_bit 76 4)"

definition generate_memo_number :: "nat \<Rightarrow> 128 word \<Rightarrow> string" where
  \<comment> \<open>the clock's year and the random bytes are the function's only inputs\<close>
  "generate_memo_number year r =
     (let unique_id = take 4 (digits_of (uuid4_int r))
      in ''NITT/DG/'' @ digits_of year @ ''/'' @ unique_id)"

definition save_memo_record :: "env \<Rightarrow> pydict \<Rightarrow> filesystem \<Rightarrow> exn + filesystem" where
  "save_memo_record e data fs =
     (let df = (case workbook fs of
                  Some x \<Rightarrow> pd_concat (read_excel x) (DataFrame data)
                | None \<Rightarrow> DataFrame data)
      in to_excel e (ensure_history df) fs)"

definition load_memos :: "filesystem \<Rightarrow> cell frame" where
  "load_memos fs =
     (case workbook fs of
        Some x \<Rightarrow> ensure_history (read_excel x)
      | None \<Rightarrow> empty_frame)"

definition stamp_pdf_with_memo_number ::
  "env \<Rightarrow> string \<Rightarrow> string \<Rightarrow> filesystem \<Rightarrow> exn + (string \<times> filesystem)" where
  \<comment> \<open>\<open>fitz.open\<close> and \<open>doc[0]\<close> raise on a file that does not open as a document with a
      first page; \<open>doc.save\<close> refuses the path the document was opened from\<close>
  "stamp_pdf_with_memo_number e pdf_path memo_number fs =
     (case files fs pdf_path of
        None \<Rightarrow> Inl (OSError pdf_path)
      | Some b \<Rightarrow>
          if \<not> opens e b then Inl (ValueError pdf_path)
          else let stamped_path = replace ''.pdf'' ''_stamped.pdf'' pdf_path
               in if stamped_path = pdf_path then Inl (ValueError stamped_path)
                  else (case write_file e stamped_path (Stamped b memo_number) fs of
                          Inl x \<Rightarrow> Inl x
                        | Inr fs' \<Rightarrow> Inr (stamped_path, fs')))"

section \<open>Page 1: Log Memo\<close>

datatype memo_type = Internal | External

text \<open>
  The widgets of the page. The department fields exist for an internal memo only and the
  sender fields for an external one; the program reads each of them under that test.
\<close>

record log_form =
  memo_type :: memo_type
  title :: string
  date_received :: "nat \<times> nat \<times> nat"
  signatory :: string
  from_department :: string
  to_department :: string
  sender_name :: string
  sender_address :: string
  sender_email :: string
  sender_phone :: string
  uploaded_file :: "(string \<times> bytes) option"

definition type_name :: "memo_type \<Rightarrow> string" where
  "type_name t = (case t of Internal \<Rightarrow> ''Internal'' | External \<Rightarrow> ''External'')"

definition dict_update :: "pydict \<Rightarrow> pydict \<Rightarrow> pydict" where
  \<comment> \<open>\<open>d.update(other)\<close>: a key already there keeps its place\<close>
  "dict_update d other = foldl (\<lambda>acc (k, v). AList.update k v acc) d other"

definition memo_data :: "string \<Rightarrow> log_form \<Rightarrow> pydict" where
  "memo_data memo_number f =
     dict_update
       [(''Memo Number'', Str memo_number),
        (''Title'', Str (title f)),
        (''Date Received'', (case date_received f of (y, m, d) \<Rightarrow> Day y m d)),
        (''Type'', Str (type_name (memo_type f))),
        (''Signatory'', Str (signatory f)),
        (''Status'', Str ''Pending''),
        (''Current Location'',
           Str (if memo_type f = Internal then to_department f else sender_name f))]
       (if memo_type f = Internal
        then [(''From'', Str (from_department f)), (''To'', Str (to_department f))]
        else [(''Sender Name'', Str (sender_name f)),
              (''Sender Address'', Str (sender_address f)),
              (''Sender Email'', Str (sender_email f)),
              (''Sender Phone'', Str (sender_phone f))])"

definition scanned_path :: "string \<Rightarrow> string \<Rightarrow> string" where
  "scanned_path memo_number name =
     scanned_folder @ ''/'' @ replace ''/'' ''-'' memo_number @ ''.'' @ split_last CHR ''.'' name"

definition save_button :: "env \<Rightarrow> string \<Rightarrow> log_form \<Rightarrow> filesystem \<Rightarrow> filesystem \<times> outcome" where
  \<comment> \<open>the body of \<open>if st.button("Save Memo Record")\<close>; a raise leaves the files as they
      were at that moment\<close>
  "save_button e memo_number f fs =
     (if strip (title f) = [] then (fs, Shown (Error_msg ''Please enter memo title.''))
      else case uploaded_file f of
        None \<Rightarrow> (fs, Shown (Error_msg ''Please upload scanned memo.''))
      | Some (name, buf) \<Rightarrow>
          let file_extension = split_last CHR ''.'' name;
              scanned_file_path = scanned_path memo_number name
          in case write_file e scanned_file_path (Uploaded buf) fs of
               Inl x \<Rightarrow> (fs, Raised x)
             | Inr fs1 \<Rightarrow>
                 (case (if lower file_extension = ''pdf''
                        then stamp_pdf_with_memo_number e scanned_file_path memo_number fs1
                        else Inr (scanned_file_path, fs1)) of
                    Inl x \<Rightarrow> (fs1, Raised x)
                  | Inr (stamped, fs2) \<Rightarrow>
                      (case save_memo_record e (memo_data memo_number f) fs2 of
                         Inl x \<Rightarrow> (fs2, Raised x)
                       | Inr fs3 \<Rightarrow> (fs3, Shown (Success_msg ''Memo logged successfully!'')))))"

definition log_memo_page ::
  "env \<Rightarrow> nat \<Rightarrow> 128 word \<Rightarrow> log_form \<Rightarrow> bool \<Rightarrow> filesystem \<Rightarrow> filesystem \<times> outcome" where
  \<comment> \<open>a number is generated on every run of the page, pressed or not\<close>
  "log_memo_page e year r f pressed fs =
     (let memo_number = generate_memo_number year r
      in if pressed then save_button e memo_number f fs else (fs, Idle))"

section \<open>Page 2: Dashboard\<close>

definition dashboard_frame :: "filesystem \<Rightarrow> cell frame" where
  \<comment> \<open>the frame the dashboard works on: reloaded, and given a Current Location column
      from the To column, or from the empty text without one\<close>
  "dashboard_frame fs =
     (let df_memos = load_memos fs
      in if frame_empty df_memos then df_memos
         else if ''Current Location'' \<notin> set (columns df_memos)
         then \<lparr>columns = columns df_memos @ [''Current Location''],
               rows = map (\<lambda>r. r(''Current Location'' :=
                                   (if ''To'' \<in> set (columns df_memos) then r ''To''
                                    else Scalar (Str [])))) (rows df_memos)\<rparr>
         else df_memos)"

section \<open>Page 3: Preview and Forward\<close>

record forward_form =
  selection :: nat
  forward_to :: string
  comment :: string
  uploaded_attachment :: "(string \<times> bytes) option"

fun first_index :: "('a \<Rightarrow> bool) \<Rightarrow> 'a list \<Rightarrow> nat option" where
  "first_index P [] = None"
| "first_index P (x # xs) = (if P x then Some 0 else map_option Suc (first_index P xs))"

definition cell_eq :: "cell \<Rightarrow> cell \<Rightarrow> bool" where
  \<comment> \<open>\<open>==\<close> on scalars: a missing value equals nothing\<close>
  "cell_eq a b = (\<not> isna a \<and> \<not> isna b \<and> a = b)"

definition set_at :: "nat \<Rightarrow> string \<Rightarrow> cell \<Rightarrow> cell frame \<Rightarrow> cell frame" where
  \<comment> \<open>\<open>df.at[i, c] = v\<close>: a column or a row that is not there is added\<close>
  "set_at i c v df =
     \<lparr>columns = (if c \<in> set (columns df) then columns df else columns df @ [c]),
      rows = (if i < length (rows df) then (rows df)[i := ((rows df) ! i)(c := v)]
              else rows df @ [(\<lambda>k. Scalar Missing)(c := v)])\<rparr>"

definition attachment_path :: "cell \<Rightarrow> string \<Rightarrow> string" where
  "attachment_path selected_memo name =
     path_join ''memos/attachments'' (str_cell selected_memo @ ''_'' @ name)"

definition forward_entry :: "string \<Rightarrow> forward_form \<Rightarrow> entry" where
  \<comment> \<open>the dict \<open>entry\<close>; \<open>now\<close> is the clock's time as \<open>strftime\<close> prints it\<close>
  "forward_entry now f =
     Entry now ''Forwarded/Reply'' (forward_to f) (comment f)
       (map_option fst (uploaded_attachment f))"

definition forward_update :: "string \<Rightarrow> forward_form \<Rightarrow> nat \<Rightarrow> cell frame \<Rightarrow> cell frame" where
  \<comment> \<open>the frame after the three assignments of the handler\<close>
  "forward_update now f memo_index df_memos =
     (let history = (case (rows df_memos ! memo_index) ''History'' of
                       PyList h \<Rightarrow> h | Scalar v \<Rightarrow> []);
          df1 = set_at memo_index ''History'' (PyList (history @ [forward_entry now f])) df_memos;
          df2 = set_at memo_index ''Current Location'' (Scalar (Str (forward_to f))) df1
      in set_at memo_index ''Status'' (Scalar (Str (''Forwarded to '' @ forward_to f))) df2)"

definition forward_button ::
  "env \<Rightarrow> string \<Rightarrow> forward_form \<Rightarrow> cell \<Rightarrow> nat \<Rightarrow> cell frame \<Rightarrow> filesystem
     \<Rightarrow> cell frame \<times> filesystem \<times> outcome" where
  \<comment> \<open>the body of \<open>if st.button("Forward/Reply")\<close>: the frame in memory changes first,
      then the attachment and the records file are written\<close>
  "forward_button e now f selected_memo memo_index df_memos fs =
     (if ''History'' \<notin> set (columns df_memos) \<or> \<not> memo_index < length (rows df_memos)
      then (df_memos, fs, Raised (KeyError ''History''))
      else
        let df3 = forward_update now f memo_index df_memos
        in case (case uploaded_attachment f of
                   None \<Rightarrow> Inr fs
                 | Some (name, buf) \<Rightarrow>
                     write_file e (attachment_path selected_memo name) (Uploaded buf) fs) of
             Inl x \<Rightarrow> (df3, fs, Raised x)
           | Inr fs1 \<Rightarrow>
               (case to_excel e df3 fs1 of
                  Inl x \<Rightarrow> (df3, fs1, Raised x)
                | Inr fs2 \<Rightarrow>
                    (df3, fs2, Shown (Success_msg (''Memo forwarded/replied to '' @ forward_to f
                                                   @ '' successfully!'')))))"

definition show_scanned :: "env \<Rightarrow> cell \<Rightarrow> filesystem \<Rightarrow> exn option" where
  \<comment> \<open>the preview of the scanned file: it reads only, and raises on a file that does
      not open\<close>
  "show_scanned e selected_memo fs =
     (let pdf = path_join scanned_folder (str_cell selected_memo @ ''.pdf'');
          scanned_file_path =
            (if files fs pdf \<noteq> None then pdf
             else case filter (\<lambda>p. files fs p \<noteq> None)
                         (map (\<lambda>ext. path_join scanned_folder (str_cell selected_memo @ ''.'' @ ext))
                              [''png'', ''jpg'', ''jpeg'']) of
                    [] \<Rightarrow> pdf
                  | p # ps \<Rightarrow> p)
      in case files fs scanned_file_path of
           None \<Rightarrow> None
         | Some b \<Rightarrow> if opens e b then None else Some (ValueError scanned_file_path))"

definition selectbox :: "'a list \<Rightarrow> nat \<Rightarrow> 'a" where
  \<comment> \<open>\<open>st.selectbox\<close> returns one of its options: the one at the position chosen, the
      last one for a position beyond\<close>
  "selectbox options k = options ! min k (length options - 1)"

definition preview_page ::
  "env \<Rightarrow> string \<Rightarrow> forward_form \<Rightarrow> bool \<Rightarrow> cell frame \<Rightarrow> filesystem
     \<Rightarrow> cell frame \<times> filesystem \<times> outcome" where
  \<comment> \<open>\<open>df_memos\<close> is the frame loaded when the script started\<close>
  "preview_page e now f pressed df_memos fs =
     (if frame_empty df_memos then (df_memos, fs, Shown (Info_msg ''No memos to preview.''))
      else if ''Memo Number'' \<notin> set (columns df_memos)
      then (df_memos, fs, Raised (KeyError ''Memo Number''))
      else
        let memo_numbers = map (\<lambda>r. r ''Memo Number'') (rows df_memos);
            selected_memo = selectbox memo_numbers (selection f)
        in case first_index (\<lambda>r. cell_eq (r ''Memo Number'') selected_memo) (rows df_memos) of
             None \<Rightarrow> (df_memos, fs, Raised IndexError)
           | Some memo_index \<Rightarrow>
               (case show_scanned e selected_memo fs of
                  Some x \<Rightarrow> (df_memos, fs, Raised x)
                | None \<Rightarrow>
                    if pressed then forward_button e now f selected_memo memo_index df_memos fs
                    else (df_memos, fs, Idle)))"

definition preview_script ::
  "env \<Rightarrow> string \<Rightarrow> forward_form \<Rightarrow> bool \<Rightarrow> filesystem \<Rightarrow> cell frame \<times> filesystem \<times> outcome" where
  \<comment> \<open>one run of the script on the third page: \<open>df_memos = load_memos()\<close>, then the page\<close>
  "preview_script e now f pressed fs = preview_page e now f pressed (load_memos fs) fs"

section \<open>Concrete inputs\<close>

text \<open>
  A run of the program used below: every write succeeds, the folders are empty, an internal
  memo is logged and then forwarded twice. \<open>workbook_v1\<close> is a records file without a
  History column, the case the "Ensure History column exists" lines are written for.
\<close>

definition env_ok :: env where
  "env_ok = \<lparr>can_write = (\<lambda>p. True), opens = (\<lambda>b. True)\<rparr>"

definition fs_empty :: filesystem where
  "fs_empty = \<lparr>workbook = None, files = (\<lambda>p. None)\<rparr>"

definition workbook_v1 :: "scalar frame" where
  "workbook_v1 =
     \<lparr>columns = [''Memo Number'', ''Status''],
      rows = [(\<lambda>c. Missing)(''Memo Number'' := Str ''NITT/DG/2024/1111'',
                                ''Status'' := Str ''Pending'')]\<rparr>"

definition fs_v1 :: filesystem where
  "fs_v1 = \<lparr>workbook = Some workbook_v1, files = (\<lambda>p. None)\<rparr>"

definition form_internal :: log_form where
  "form_internal =
     \<lparr>memo_type = Internal, title = ''Budget'', date_received = (2025, 1, 5),
      signatory = ''A. Bello'', from_department = ''Registry'', to_department = ''Bursary'',
      sender_name = [], sender_address = [], sender_email = [], sender_phone = [],
      uploaded_file = Some (''scan.png'', [1, 2, 3])\<rparr>"

definition fs_logged :: filesystem where
  \<comment> \<open>the files after \<open>form_internal\<close> is saved under the number NITT/DG/2025/3022\<close>
  "fs_logged =
     \<lparr>workbook = Some (excel_frame (ensure_history
                  (DataFrame (memo_data ''NITT/DG/2025/3022'' form_internal)))),
      files = (\<lambda>p. None)(''memos/scanned//NITT-DG-2025-3022.png'' \<mapsto> Uploaded [1, 2, 3])\<rparr>"

definition forward_1 :: forward_form where
  "forward_1 = \<lparr>selection = 0, forward_to = ''Registry'', comment = ''for action'',
                 uploaded_attachment = None\<rparr>"

definition forward_2 :: forward_form where
  "forward_2 = \<lparr>selection = 0, forward_to = ''Bursary'', comment = ''noted'',
                 uploaded_attachment = None\<rparr>"

definition fs_forwarded_1 :: filesystem where
  \<comment> \<open>the files after the memo is forwarded to the Registry\<close>
  "fs_forwarded_1 =
     fs_logged\<lparr>workbook := Some (excel_frame
        (forward_update ''2025-01-06 10:00'' forward_1 0 (load_memos fs_logged)))\<rparr>"

definition fs_forwarded_2 :: filesystem where
  \<comment> \<open>the files after it is forwarded again, to the Bursary\<close>
  "fs_forwarded_2 =
     fs_forwarded_1\<lparr>workbook := Some (excel_frame
        (forward_update ''2025-01-07 11:30'' forward_2 0 (load_memos fs_forwarded_1)))\<rparr>"

definition env_readonly :: env where
  \<comment> \<open>no path can be written\<close>
  "env_readonly = \<lparr>can_write = (\<lambda>p. False), opens = (\<lambda>b. True)\<rparr>"

section \<open>Properties\<close>

subsection \<open>The memo number\<close>

lemma digit_char: "n < 10 \<Longrightarrow> ''0123456789'' ! n \<in> set ''0123456789''" for n :: nat
  by (rule nth_mem) simp

lemma digits_of_digits: "set (digits_of n) \<subseteq> set ''0123456789''"
proof (induction n rule: digits_of.induct)
  case (1 n)
  show ?case
  proof (cases "n < 10")
    case True
    then show ?thesis using digit_char [of n] by (subst digits_of.simps) simp
  next
    case False
    have "n mod 10 < 10" by simp
    then have "''0123456789'' ! (n mod 10) \<in> set ''0123456789''" by (rule digit_char)
    with False 1 show ?thesis by (subst digits_of.simps) simp
  qed
qed

lemma digits_of_nonempty: "1 \<le> length (digits_of m)"
  by (subst digits_of.simps) simp

lemma digits_of_length:
  assumes "1000 \<le> n"
  shows "4 \<le> length (digits_of n)"
proof -
  have a: "\<not> n < 10" and b: "\<not> n div 10 < 10" and c: "\<not> n div 10 div 10 < 10"
    using assms by linarith+
  have "length (digits_of n) = length (digits_of (n div 10)) + 1"
    using a by (subst digits_of.simps) simp
  also have "length (digits_of (n div 10)) = length (digits_of (n div 10 div 10)) + 1"
    using b by (subst digits_of.simps) simp
  also have "length (digits_of (n div 10 div 10)) = length (digits_of (n div 10 div 10 div 10)) + 1"
    using c by (subst digits_of.simps) simp
  finally show ?thesis using digits_of_nonempty [of "n div 10 div 10 div 10"] by linarith
qed

text \<open>The version bits of a version-4 UUID put a one at bit 78, so its decimal form is long.\<close>

lemma uuid4_int_large: "1000 \<le> uuid4_int r"
proof -
  let ?w = "((r AND NOT (push_bit 48 0xc000)) OR push_bit 48 0x8000) AND NOT (push_bit 64 0xf000)"
  have "(push_bit 76 4 :: 128 word) \<le> ?w OR push_bit 76 4" by (rule le_word_or1)
  then have "unat (push_bit 76 4 :: 128 word) \<le> uuid4_int r"
    unfolding uuid4_int_def by (simp only: word_le_nat_alt)
  moreover have "unat (push_bit 76 4 :: 128 word) = 302231454903657293676544"
    by (simp add: push_bit_eq_mult)
  ultimately show ?thesis by linarith
qed

text \<open>
  C10. \<open>generate_memo_number\<close> returns \<open>NITT/DG/\<close>, the decimal form of the current year,
  a slash and the first four characters of the decimal form of a fresh version-4 UUID; these
  are exactly four decimal digits. The clock and the random bytes are its only inputs: no
  stored record is an argument.
\<close>

theorem generate_memo_number_form:
  "generate_memo_number year r
     = ''NITT/DG/'' @ digits_of year @ ''/'' @ take 4 (digits_of (uuid4_int r))
   \<and> length (take 4 (digits_of (uuid4_int r))) = 4
   \<and> set (take 4 (digits_of (uuid4_int r))) \<subseteq> set ''0123456789''
   \<and> set (digits_of year) \<subseteq> set ''0123456789''"
proof -
  have "4 \<le> length (digits_of (uuid4_int r))"
    using uuid4_int_large by (rule digits_of_length)
  then have "length (take 4 (digits_of (uuid4_int r))) = 4" by simp
  moreover have "set (take 4 (digits_of (uuid4_int r))) \<subseteq> set ''0123456789''"
    using set_take_subset digits_of_digits by (rule subset_trans)
  ultimately show ?thesis
    using digits_of_digits [of year] by (simp add: generate_memo_number_def)
qed

theorem generate_memo_number_form_witness:
  "generate_memo_number 2025 0 = ''NITT/DG/2025/3022''
   \<and> length (take 4 (digits_of (uuid4_int 0))) = 4"
  using generate_memo_number_form [of 2025 0]
  by (simp add: generate_memo_number_def uuid4_int_def digits_of.simps)

subsection \<open>What a save writes\<close>

lemma to_excel_Inr:
  "to_excel e df fs = Inr fs' \<Longrightarrow>
     can_write e memo_file \<and> fs' = fs\<lparr>workbook := Some (excel_frame df)\<rparr>"
  by (auto simp: to_excel_def split: if_splits)

lemma write_file_Inr:
  "write_file e p b fs = Inr fs' \<Longrightarrow>
     can_write e p \<and> fs' = fs\<lparr>files := (files fs)(p \<mapsto> b)\<rparr>"
  by (auto simp: write_file_def split: if_splits)

lemma columns_ensure_history:
  "set (columns (ensure_history df)) = insert ''History'' (set (columns df))"
  by (auto simp: ensure_history_def)

lemma rows_ensure_history:
  "rows (ensure_history df) =
     map (\<lambda>r. r(''History'' := (if ''History'' \<in> set (columns df) \<and> \<not> isna (r ''History'')
                                 then r ''History'' else PyList []))) (rows df)"
  by (auto simp: ensure_history_def)

lemma save_memo_record_Inr:
  assumes "save_memo_record e data fs = Inr fs'"
  shows "can_write e memo_file" and "files fs' = files fs"
    and "workbook fs' = Some (excel_frame (ensure_history
           (case workbook fs of
              Some x \<Rightarrow> pd_concat (read_excel x) (DataFrame data)
            | None \<Rightarrow> DataFrame data)))"
  using assms by (auto simp: save_memo_record_def Let_def dest!: to_excel_Inr)

lemma str_list_Nil: "str_list [] = ''[]''"
  by (simp add: str_list_def)

lemma dict_get_outside:
  assumes "c \<notin> fst ` set data"
  shows "dict_get data c = Missing"
proof -
  have "map_of data c = None" using assms by (simp add: map_of_eq_None_iff)
  then show ?thesis by (simp add: dict_get_def)
qed

lemma rows_excel_ensure_history:
  "rows (excel_frame (ensure_history df)) = map (stored_row (set (columns df))) (rows df)"
  by (auto simp: excel_frame_def rows_ensure_history columns_ensure_history excel_cell_def
      str_list_Nil stored_row_def)

lemma stored_row_new:
  assumes "fst ` set data \<subseteq> cols"
  shows "stored_row cols (\<lambda>c. Scalar (dict_get data c)) c
       = (let v = dict_get data c in if c = ''History'' \<and> v = Missing then Str ''[]'' else v)"
proof (cases "c \<in> cols")
  case True
  then show ?thesis by (auto simp: stored_row_def excel_cell_def isna_def Let_def)
next
  case False
  then have "dict_get data c = Missing" using assms dict_get_outside by blast
  with False show ?thesis by (auto simp: stored_row_def excel_cell_def isna_def Let_def)
qed

lemma stored_row_old:
  assumes "set (columns x) \<subseteq> cols"
  shows "stored_row cols (\<lambda>c. if c \<in> set (columns x) then Scalar (r c) else Scalar Missing) c
       = (let v = (if c \<in> set (columns x) then r c else Missing)
          in if c = ''History'' \<and> v = Missing then Str ''[]'' else v)"
  using assms by (auto simp: stored_row_def excel_cell_def isna_def Let_def)

lemma save_memo_record_stored:
  assumes "save_memo_record e data fs = Inr fs'"
  shows "\<exists>y. workbook fs' = Some y
     \<and> files fs' = files fs
     \<and> length (rows y) = (case workbook fs of None \<Rightarrow> 0 | Some x \<Rightarrow> length (rows x)) + 1
     \<and> set (columns y)
         = (case workbook fs of None \<Rightarrow> {} | Some x \<Rightarrow> set (columns x))
           \<union> fst ` set data \<union> {''History''}
     \<and> (\<forall>c. last (rows y) c
              = (let v = dict_get data c
                 in if c = ''History'' \<and> v = Missing then Str ''[]'' else v))
     \<and> (\<forall>x. workbook fs = Some x \<longrightarrow>
           (\<forall>i<length (rows x). \<forall>c. (rows y ! i) c
              = (let v = stored_at x i c
                 in if c = ''History'' \<and> v = Missing then Str ''[]'' else v)))"
proof (cases "workbook fs")
  case None
  let ?y = "excel_frame (ensure_history (DataFrame data))"
  have w: "workbook fs' = Some ?y" and f: "files fs' = files fs"
    using save_memo_record_Inr [OF assms] None by simp_all
  have rws: "rows ?y = [stored_row (fst ` set data) (\<lambda>c. Scalar (dict_get data c))]"
    by (simp add: rows_excel_ensure_history DataFrame_def)
  have c: "set (columns ?y) = fst ` set data \<union> {''History''}"
    by (simp add: excel_frame_def columns_ensure_history DataFrame_def)
  have r: "last (rows ?y) c
             = (let v = dict_get data c
                in if c = ''History'' \<and> v = Missing then Str ''[]'' else v)" for c
    by (simp add: rws stored_row_new [OF subset_refl])
  show ?thesis using w f c r None by (simp add: rws)
next
  case (Some x)
  let ?df = "pd_concat (read_excel x) (DataFrame data)"
  let ?y = "excel_frame (ensure_history ?df)"
  let ?cols = "set (columns x) \<union> fst ` set data"
  have w: "workbook fs' = Some ?y" and f: "files fs' = files fs"
    using save_memo_record_Inr [OF assms] Some by simp_all
  have cols: "set (columns ?df) = ?cols"
    by (auto simp: pd_concat_def read_excel_def DataFrame_def)
  have rws: "rows ?y
      = map (\<lambda>r. stored_row ?cols
                    (\<lambda>c. if c \<in> set (columns x) then Scalar (r c) else Scalar Missing)) (rows x)
        @ [stored_row ?cols (\<lambda>c. Scalar (dict_get data c))]"
    by (simp add: rows_excel_ensure_history cols)
       (simp add: pd_concat_def read_excel_def DataFrame_def)
  have c: "set (columns ?y) = set (columns x) \<union> fst ` set data \<union> {''History''}"
    using cols by (simp add: excel_frame_def columns_ensure_history)
  have s1: "fst ` set data \<subseteq> ?cols" and s2: "set (columns x) \<subseteq> ?cols" by blast+
  have r: "last (rows ?y) c
             = (let v = dict_get data c
                in if c = ''History'' \<and> v = Missing then Str ''[]'' else v)" for c
    by (simp add: rws stored_row_new [OF s1])
  have o: "(rows ?y ! i) c
             = (let v = stored_at x i c
                in if c = ''History'' \<and> v = Missing then Str ''[]'' else v)"
    if "i < length (rows x)" for i c
    using that by (simp add: rws nth_append stored_row_old [OF s2] stored_at_def)
  have l: "length (rows ?y) = length (rows x) + 1" by (simp add: rws)
  show ?thesis
    using w f l c r o Some by simp
qed




subsection \<open>The Save Memo Record button\<close>



lemma save_form_internal:
  "save_button env_ok ''NITT/DG/2025/3022'' form_internal fs_empty
     = (fs_logged, Shown (Success_msg ''Memo logged successfully!''))"
  by (simp add: save_button_def form_internal_def strip_def is_space_def split_last_def
      lower_def lower_char_def scanned_path_def scanned_folder_def replace_def write_file_def
      env_ok_def fs_empty_def fs_logged_def save_memo_record_def to_excel_def Let_def)

text \<open>
  C8. When the title is empty after stripping white space, or no file was uploaded, the Save
  Memo Record button shows an error message and leaves every stored file as it was: the
  scanned folder and the records file are the ones before the press.
\<close>

theorem save_button_rejects:
  assumes "strip (title f) = [] \<or> uploaded_file f = None"
  shows "(\<exists>m. save_button e n f fs = (fs, Shown (Error_msg m)))
       \<and> (\<exists>m. log_memo_page e year r f True fs = (fs, Shown (Error_msg m)))"
  using assms by (auto simp: save_button_def log_memo_page_def Let_def)

theorem save_button_rejects_witness:
  "(strip (title (form_internal\<lparr>title := ''   ''\<rparr>)) = []
      \<or> uploaded_file (form_internal\<lparr>title := ''   ''\<rparr>) = None)
   \<and> save_button env_ok ''NITT/DG/2025/3022'' (form_internal\<lparr>title := ''   ''\<rparr>) fs_empty
       = (fs_empty, Shown (Error_msg ''Please enter memo title.''))"
proof -
  have h: "strip (title (form_internal\<lparr>title := ''   ''\<rparr>)) = []
      \<or> uploaded_file (form_internal\<lparr>title := ''   ''\<rparr>) = None"
    by (simp add: strip_def is_space_def)
  from save_button_rejects [OF h, of env_ok "''NITT/DG/2025/3022''" fs_empty]
  show ?thesis using h by (auto simp: save_button_def strip_def is_space_def)
qed




subsection \<open>Loading the records\<close>

lemma rows_load_memos:
  assumes "workbook fs = Some x"
  shows "rows (load_memos fs)
     = map (\<lambda>r. (\<lambda>c. if c \<in> set (columns x) then Scalar (r c) else Scalar Missing)
                 (''History'' := (if ''History'' \<in> set (columns x) \<and> r ''History'' \<noteq> Missing
                                  then Scalar (r ''History'') else PyList []))) (rows x)"
  using assms by (auto simp: load_memos_def rows_ensure_history read_excel_def isna_def)

lemma columns_load_memos:
  assumes "workbook fs = Some x"
  shows "set (columns (load_memos fs)) = insert ''History'' (set (columns x))"
  using assms by (simp add: load_memos_def columns_ensure_history read_excel_def)

lemma load_memos_nonempty:
  assumes "\<not> frame_empty (load_memos fs)"
  shows "\<exists>x. workbook fs = Some x"
  using assms by (cases "workbook fs") (simp_all add: load_memos_def frame_empty_def empty_frame_def)

subsection \<open>The Forward/Reply button\<close>

lemma first_index_Some:
  "first_index P xs = Some i \<Longrightarrow> i < length xs \<and> P (xs ! i)"
  by (induction xs arbitrary: i) (auto split: if_splits)

lemma rows_set_at:
  "i < length (rows df) \<Longrightarrow> rows (set_at i c v df) = (rows df)[i := (rows df ! i)(c := v)]"
  by (simp add: set_at_def)

lemma columns_set_at: "set (columns (set_at i c v df)) = insert c (set (columns df))"
  by (auto simp: set_at_def)

lemma rows_forward_update:
  assumes "i < length (rows df)"
  shows "rows (forward_update now f i df)
     = (rows df)[i := (rows df ! i)
          (''History'' := PyList ((case (rows df ! i) ''History'' of PyList h \<Rightarrow> h | Scalar v \<Rightarrow> [])
                                  @ [forward_entry now f]),
           ''Current Location'' := Scalar (Str (forward_to f)),
           ''Status'' := Scalar (Str (''Forwarded to '' @ forward_to f)))]"
  using assms by (simp add: forward_update_def Let_def rows_set_at)

lemma columns_forward_update:
  "set (columns (forward_update now f i df))
     = set (columns df) \<union> {''History'', ''Current Location'', ''Status''}"
  by (auto simp: forward_update_def Let_def columns_set_at)

lemma forward_button_success:
  assumes "forward_button e now f sel i df fs = (df', fs', Shown (Success_msg m))"
  shows "i < length (rows df)" and "''History'' \<in> set (columns df)"
    and "df' = forward_update now f i df"
    and "workbook fs' = Some (excel_frame df')"
    and "can_write e memo_file"
    and "\<forall>name buf. uploaded_attachment f = Some (name, buf) \<longrightarrow>
           can_write e (attachment_path sel name)
           \<and> files fs' = (files fs)(attachment_path sel name \<mapsto> Uploaded buf)"
    and "uploaded_attachment f = None \<longrightarrow> files fs' = files fs"
  using assms
  by (auto simp: forward_button_def Let_def split: if_splits option.splits sum.splits prod.splits
      dest!: to_excel_Inr write_file_Inr)

lemma preview_page_success:
  assumes "preview_page e now f True df fs = (df', fs', Shown (Success_msg m))"
  shows "\<exists>i. first_index (\<lambda>r. cell_eq (r ''Memo Number'')
                  (selectbox (map (\<lambda>r. r ''Memo Number'') (rows df)) (selection f))) (rows df) = Some i
            \<and> forward_button e now f (selectbox (map (\<lambda>r. r ''Memo Number'') (rows df)) (selection f)) i df fs
                = (df', fs', Shown (Success_msg m))"
    and "\<not> frame_empty df" and "''Memo Number'' \<in> set (columns df)"
    and "show_scanned e (selectbox (map (\<lambda>r. r ''Memo Number'') (rows df)) (selection f)) fs = None"
  using assms
  by (auto simp: preview_page_def Let_def split: if_splits option.splits)

lemma loaded_history_is_empty:
  assumes "workbook fs = Some x" and "i < length (rows x)"
  shows "(case (rows (load_memos fs) ! i) ''History'' of PyList h \<Rightarrow> h | Scalar v \<Rightarrow> []) = []"
  using assms by (simp add: rows_load_memos)

lemma length_rows_load_memos:
  assumes "workbook fs = Some x"
  shows "length (rows (load_memos fs)) = length (rows x)"
  using assms by (simp add: rows_load_memos)

lemma length_rows_forward_update:
  "i < length (rows df) \<Longrightarrow> length (rows (forward_update now f i df)) = length (rows df)"
  by (simp add: rows_forward_update)

lemma script_success:
  assumes "preview_script e now f True fs = (df', fs', Shown (Success_msg m))"
  shows "\<exists>x i. workbook fs = Some x \<and> i < length (rows x)
           \<and> cell_eq ((rows (load_memos fs) ! i) ''Memo Number'')
                (selectbox (map (\<lambda>r. r ''Memo Number'') (rows (load_memos fs))) (selection f))
           \<and> df' = forward_update now f i (load_memos fs)
           \<and> workbook fs' = Some (excel_frame df')"
proof -
  let ?df = "load_memos fs"
  let ?sel = "selectbox (map (\<lambda>r. r ''Memo Number'') (rows ?df)) (selection f)"
  have p: "preview_page e now f True ?df fs = (df', fs', Shown (Success_msg m))"
    using assms by (simp add: preview_script_def)
  from preview_page_success(1) [OF p] obtain i
    where fi: "first_index (\<lambda>r. cell_eq (r ''Memo Number'') ?sel) (rows ?df) = Some i"
      and fb: "forward_button e now f ?sel i ?df fs = (df', fs', Shown (Success_msg m))"
    by blast
  have i: "i < length (rows ?df)" and d: "df' = forward_update now f i ?df"
    and w: "workbook fs' = Some (excel_frame df')"
    using forward_button_success [OF fb] by simp_all
  have "\<not> frame_empty ?df" using preview_page_success(2) [OF p] .
  then obtain x where x: "workbook fs = Some x" using load_memos_nonempty by blast
  have "i < length (rows x)" using i length_rows_load_memos [OF x] by simp
  moreover have "cell_eq ((rows ?df ! i) ''Memo Number'') ?sel"
    using first_index_Some [OF fi] by simp
  ultimately show ?thesis using x d w by blast
qed

lemma files_workbook_update: "files (fs\<lparr>workbook := w\<rparr>) = files fs"
  by simp

lemma show_scanned_workbook: "show_scanned e s (fs\<lparr>workbook := w\<rparr>) = show_scanned e s fs"
  by (simp only: show_scanned_def files_workbook_update)

lemma forward_button_workbook:
  assumes "forward_button e now f sel i df fs = (df', fs', Shown (Success_msg m))"
  shows "forward_button e now f sel i df (fs\<lparr>workbook := w\<rparr>) = (df', fs', Shown (Success_msg m))"
  using assms
  by (auto simp: forward_button_def Let_def to_excel_def write_file_def
      split: if_splits option.splits)

subsection \<open>A run: one memo logged and forwarded twice\<close>

lemma loaded_logged:
  "columns (load_memos fs_logged) = [''Memo Number'', ''Title'', ''Date Received'', ''Type'', ''Signatory'',
   ''Status'', ''Current Location'', ''From'', ''To'', ''History'']"
  "length (rows (load_memos fs_logged)) = 1"
  "(rows (load_memos fs_logged) ! 0) ''Memo Number'' = Scalar (Str ''NITT/DG/2025/3022'')"
  "(rows (load_memos fs_logged) ! 0) ''History'' = Scalar (Str ''[]'')"
  "(rows (load_memos fs_logged) ! 0) ''Status'' = Scalar (Str ''Pending'')"
  "(rows (load_memos fs_logged) ! 0) ''Current Location'' = Scalar (Str ''Bursary'')"
  by (simp_all add: load_memos_def fs_logged_def ensure_history_def read_excel_def excel_frame_def
       DataFrame_def memo_data_def dict_update_def form_internal_def dict_get_def excel_cell_def
       type_name_def isna_def str_list_Nil)

lemma singleton_rows: "length xs = 1 \<Longrightarrow> xs = [xs ! 0]"
  by (cases xs) simp_all

lemma show_scanned_logged: "show_scanned env_ok (Scalar (Str ''NITT/DG/2025/3022'')) (fs_logged\<lparr>workbook := w\<rparr>) = None"
  by (simp add: show_scanned_def path_join_def str_cell_def str_scalar_def scanned_folder_def
      fs_logged_def env_ok_def)

lemma preview_single:
  assumes c: "''Memo Number'' \<in> set (columns df)" "''History'' \<in> set (columns df)"
    and l: "length (rows df) = 1"
    and n: "(rows df ! 0) ''Memo Number'' = Scalar (Str s)"
    and sh: "show_scanned e (Scalar (Str s)) fs = None"
    and w: "can_write e memo_file"
    and a: "uploaded_attachment f = None"
  shows "preview_page e now f True df fs
     = (forward_update now f 0 df,
        fs\<lparr>workbook := Some (excel_frame (forward_update now f 0 df))\<rparr>,
        Shown (Success_msg (''Memo forwarded/replied to '' @ forward_to f @ '' successfully!'')))"
proof -
  have r: "rows df = [rows df ! 0]" using l by (rule singleton_rows)
  have ne: "\<not> frame_empty df" using c l by (auto simp: frame_empty_def)
  have sel: "selectbox (map (\<lambda>r. r ''Memo Number'') (rows df)) (selection f) = Scalar (Str s)"
    by (subst r) (simp add: selectbox_def n)
  have fi: "first_index (\<lambda>r. cell_eq (r ''Memo Number'') (Scalar (Str s))) (rows df) = Some 0"
    by (subst r) (simp add: cell_eq_def isna_def n)
  have fb: "forward_button e now f (Scalar (Str s)) 0 df fs
     = (forward_update now f 0 df,
        fs\<lparr>workbook := Some (excel_frame (forward_update now f 0 df))\<rparr>,
        Shown (Success_msg (''Memo forwarded/replied to '' @ forward_to f @ '' successfully!'')))"
    using c l w a by (simp add: forward_button_def to_excel_def Let_def)
  show ?thesis
    using ne c by (simp add: preview_page_def Let_def sel fi sh fb)
qed


lemma env_ok_can_write: "can_write env_ok memo_file"
  by (simp add: env_ok_def)

lemma forward_button_run_1:
  "forward_button env_ok ''2025-01-06 10:00'' forward_1 (Scalar (Str ''NITT/DG/2025/3022'')) 0
     (load_memos fs_logged) fs_logged
   = (forward_update ''2025-01-06 10:00'' forward_1 0 (load_memos fs_logged), fs_forwarded_1,
      Shown (Success_msg ''Memo forwarded/replied to Registry successfully!''))"
  by (simp add: forward_button_def to_excel_def Let_def loaded_logged env_ok_def forward_1_def
      fs_forwarded_1_def)

lemma script_forward_1:
  "preview_script env_ok ''2025-01-06 10:00'' forward_1 True fs_logged
     = (forward_update ''2025-01-06 10:00'' forward_1 0 (load_memos fs_logged), fs_forwarded_1,
        Shown (Success_msg ''Memo forwarded/replied to Registry successfully!''))"
proof -
  have "show_scanned env_ok (Scalar (Str ''NITT/DG/2025/3022'')) fs_logged = None"
    using show_scanned_logged [of "workbook fs_logged"] by simp
  from preview_single [OF _ _ loaded_logged(2) loaded_logged(3) this env_ok_can_write, of forward_1 "''2025-01-06 10:00''"]
  show ?thesis
    by (simp add: loaded_logged(1) preview_script_def fs_forwarded_1_def forward_1_def)
qed

lemma loaded_logged_ne: "rows (load_memos fs_logged) \<noteq> []"
  using loaded_logged(2) by auto

lemma stored_forwarded_1:
  "columns (the (workbook fs_forwarded_1)) = [''Memo Number'', ''Title'', ''Date Received'', ''Type'', ''Signatory'',
   ''Status'', ''Current Location'', ''From'', ''To'', ''History'']"
  "length (rows (the (workbook fs_forwarded_1))) = 1"
  "(rows (the (workbook fs_forwarded_1)) ! 0) ''Memo Number'' = Str ''NITT/DG/2025/3022''"
  "(rows (the (workbook fs_forwarded_1)) ! 0) ''History'' = Str (str_list [forward_entry ''2025-01-06 10:00'' forward_1])"
  "(rows (the (workbook fs_forwarded_1)) ! 0) ''Status'' = Str ''Forwarded to Registry''"
  "(rows (the (workbook fs_forwarded_1)) ! 0) ''Current Location'' = Str ''Registry''"
  by (simp_all add: fs_forwarded_1_def excel_frame_def rows_forward_update loaded_logged
      loaded_logged_ne forward_update_def set_at_def Let_def excel_cell_def forward_1_def)

lemma loaded_forwarded_1:
  "columns (load_memos fs_forwarded_1) = [''Memo Number'', ''Title'', ''Date Received'', ''Type'', ''Signatory'',
   ''Status'', ''Current Location'', ''From'', ''To'', ''History'']"
  "length (rows (load_memos fs_forwarded_1)) = 1"
  "(rows (load_memos fs_forwarded_1) ! 0) ''Memo Number'' = Scalar (Str ''NITT/DG/2025/3022'')"
  "(rows (load_memos fs_forwarded_1) ! 0) ''History'' = Scalar (Str (str_list [forward_entry ''2025-01-06 10:00'' forward_1]))"
proof -
  have w: "workbook fs_forwarded_1 = Some (the (workbook fs_forwarded_1))"
    by (simp add: fs_forwarded_1_def)
  have ne: "rows (the (workbook fs_forwarded_1)) \<noteq> []"
    using stored_forwarded_1(2) by auto
  show "columns (load_memos fs_forwarded_1) = [''Memo Number'', ''Title'', ''Date Received'', ''Type'', ''Signatory'',
   ''Status'', ''Current Location'', ''From'', ''To'', ''History'']"
    by (subst load_memos_def, subst w) (simp add: ensure_history_def read_excel_def stored_forwarded_1(1))
  show "length (rows (load_memos fs_forwarded_1)) = 1"
    by (simp add: length_rows_load_memos [OF w] stored_forwarded_1(2))
  show "(rows (load_memos fs_forwarded_1) ! 0) ''Memo Number'' = Scalar (Str ''NITT/DG/2025/3022'')"
    using ne by (simp add: rows_load_memos [OF w] stored_forwarded_1)
  show "(rows (load_memos fs_forwarded_1) ! 0) ''History'' = Scalar (Str (str_list [forward_entry ''2025-01-06 10:00'' forward_1]))"
    using ne by (simp add: rows_load_memos [OF w] stored_forwarded_1)
qed

lemma show_scanned_forwarded_1:
  "show_scanned env_ok (Scalar (Str ''NITT/DG/2025/3022'')) fs_forwarded_1 = None"
  unfolding fs_forwarded_1_def by (rule show_scanned_logged)

lemma script_forward_2:
  "preview_script env_ok ''2025-01-07 11:30'' forward_2 True fs_forwarded_1
     = (forward_update ''2025-01-07 11:30'' forward_2 0 (load_memos fs_forwarded_1), fs_forwarded_2,
        Shown (Success_msg ''Memo forwarded/replied to Bursary successfully!''))"
  using preview_single [OF _ _ loaded_forwarded_1(2) loaded_forwarded_1(3) show_scanned_forwarded_1 env_ok_can_write,
      of forward_2 "''2025-01-07 11:30''"]
  by (simp add: loaded_forwarded_1(1) preview_script_def fs_forwarded_2_def forward_2_def)

lemma str_list_forward_1:
  "str_list [forward_entry ''2025-01-06 10:00'' forward_1]
     = ''[{'Date': '2025-01-06 10:00', 'Action': 'Forwarded/Reply', 'To': 'Registry', 'Comment': 'for action', 'Attachment': None}]''"
  by (simp add: str_list_def repr_entry_def forward_entry_def forward_1_def py_repr_def
      escape_char_def printable_def Let_def)

lemma str_list_forward_2:
  "str_list [forward_entry ''2025-01-07 11:30'' forward_2]
     = ''[{'Date': '2025-01-07 11:30', 'Action': 'Forwarded/Reply', 'To': 'Bursary', 'Comment': 'noted', 'Attachment': None}]''"
  by (simp add: str_list_def repr_entry_def forward_entry_def forward_2_def py_repr_def escape_char_def printable_def Let_def)




text \<open>
  C3. The theorem evaluates the program where the claim fails. The History read back from the
  records file is never a list (a missing cell has become the empty list, a stored history is
  text), so the handler starts from the empty list every time: after a Forward/Reply that
  succeeds, the History of the memo holds the new entry and nothing else, in memory and in the
  file. In the run below the entry of the first forward is gone after the second.
\<close>

theorem forward_history_one_entry:
  assumes "preview_script e now f True fs = (df', fs', Shown (Success_msg m))"
  shows "\<exists>y i. workbook fs' = Some y \<and> i < length (rows y)
           \<and> (rows df' ! i) ''History'' = PyList [forward_entry now f]
           \<and> (rows y ! i) ''History'' = Str (str_list [forward_entry now f])"
proof -
  from script_success [OF assms] obtain x i where x: "workbook fs = Some x"
    and i: "i < length (rows x)"
    and d: "df' = forward_update now f i (load_memos fs)"
    and w: "workbook fs' = Some (excel_frame df')"
    by blast
  let ?y = "excel_frame df'"
  have il: "i < length (rows (load_memos fs))" using i length_rows_load_memos [OF x] by simp
  have l: "i < length (rows ?y)"
    using il by (simp add: excel_frame_def d length_rows_forward_update)
  have h: "(rows df' ! i) ''History'' = PyList [forward_entry now f]"
    using il by (simp add: d rows_forward_update loaded_history_is_empty [OF x i])
  have c: "''History'' \<in> set (columns df')"
    by (simp add: d columns_forward_update)
  have "(rows ?y ! i) ''History'' = excel_cell ((rows df' ! i) ''History'')"
    using il c by (simp add: excel_frame_def d length_rows_forward_update)
  then have "(rows ?y ! i) ''History'' = Str (str_list [forward_entry now f])"
    by (simp add: h excel_cell_def)
  then show ?thesis using w l h by blast
qed

theorem forward_history_one_entry_witness:
  "preview_script env_ok ''2025-01-07 11:30'' forward_2 True fs_forwarded_1
     = (forward_update ''2025-01-07 11:30'' forward_2 0 (load_memos fs_forwarded_1), fs_forwarded_2,
        Shown (Success_msg ''Memo forwarded/replied to Bursary successfully!''))
   \<and> stored_at (the (workbook fs_forwarded_1)) 0 ''History''
       = Str ''[{'Date': '2025-01-06 10:00', 'Action': 'Forwarded/Reply', 'To': 'Registry', 'Comment': 'for action', 'Attachment': None}]''
   \<and> (\<exists>y i. workbook fs_forwarded_2 = Some y \<and> i < length (rows y)
          \<and> (rows y ! i) ''History''
             = Str ''[{'Date': '2025-01-07 11:30', 'Action': 'Forwarded/Reply', 'To': 'Bursary', 'Comment': 'noted', 'Attachment': None}]'')"
proof -
  have s: "stored_at (the (workbook fs_forwarded_1)) 0 ''History''
       = Str ''[{'Date': '2025-01-06 10:00', 'Action': 'Forwarded/Reply', 'To': 'Registry', 'Comment': 'for action', 'Attachment': None}]''"
    by (simp add: stored_at_def stored_forwarded_1 str_list_forward_1)
  from forward_history_one_entry [OF script_forward_2] s script_forward_2
  show ?thesis by (simp only: str_list_forward_2) blast
qed

lemma forward_button_frame:
  "fst (forward_button e now f sel i df fs) = df
   \<or> (i < length (rows df) \<and> fst (forward_button e now f sel i df fs) = forward_update now f i df)"
  by (auto simp: forward_button_def Let_def split: option.splits sum.splits prod.splits)

lemma preview_page_frame:
  "fst (preview_page e now f pressed df fs) = df
   \<or> (\<exists>i<length (rows df). fst (preview_page e now f pressed df fs) = forward_update now f i df)"
proof -
  have "fst (preview_page e now f pressed df fs) = df
     \<or> (\<exists>sel i. fst (preview_page e now f pressed df fs) = fst (forward_button e now f sel i df fs))"
    by (auto simp: preview_page_def Let_def split: option.splits)
  then show ?thesis using forward_button_frame by metis
qed

lemma status_after_page:
  assumes "preview_page e now f pressed df fs = (df', fs', out)" and "j < length (rows df)"
  shows "(rows df' ! j) ''Status'' = (rows df ! j) ''Status''
       \<or> (rows df' ! j) ''Status'' = Scalar (Str (''Forwarded to '' @ forward_to f))"
proof -
  have d: "df' = fst (preview_page e now f pressed df fs)" using assms(1) by simp
  from preview_page_frame [of e now f pressed df fs]
  show ?thesis
  proof
    assume "fst (preview_page e now f pressed df fs) = df"
    then show ?thesis using d by simp
  next
    assume "\<exists>i<length (rows df). fst (preview_page e now f pressed df fs) = forward_update now f i df"
    then obtain i where i: "i < length (rows df)" and u: "df' = forward_update now f i df"
      using d by auto
    show ?thesis
      using i assms(2) by (cases "j = i") (simp_all add: u rows_forward_update)
  qed
qed

text \<open>
  C4. The Preview page has one button. Without a press the frame and the files stay as they
  are; a press that succeeds is a forward: it sets Status to \<open>Forwarded to\<close> and the
  recipient. Whatever is pressed, the Status of a memo after a run of the page is the one
  before or \<open>Forwarded to\<close> and the recipient: the page has no operation that approves a
  memo.
\<close>

theorem preview_page_only_forwards:
  "(\<forall>df' fs' out. preview_page e now f False df fs = (df', fs', out) \<longrightarrow> df' = df \<and> fs' = fs)
   \<and> (\<forall>df' fs' m. preview_page e now f True df fs = (df', fs', Shown (Success_msg m)) \<longrightarrow>
         (\<exists>i<length (rows df). (rows df' ! i) ''Status''
              = Scalar (Str (''Forwarded to '' @ forward_to f))))
   \<and> (\<forall>pressed df' fs' out j.
         preview_page e now f pressed df fs = (df', fs', out) \<and> j < length (rows df) \<longrightarrow>
           (rows df' ! j) ''Status'' = (rows df ! j) ''Status''
         \<or> (rows df' ! j) ''Status'' = Scalar (Str (''Forwarded to '' @ forward_to f)))"
proof -
  have a: "df' = df \<and> fs' = fs"
    if "preview_page e now f False df fs = (df', fs', out)" for df' fs' out
    using that by (auto simp: preview_page_def Let_def split: if_splits option.splits)
  have b: "\<exists>i<length (rows df). (rows df' ! i) ''Status''
              = Scalar (Str (''Forwarded to '' @ forward_to f))"
    if p: "preview_page e now f True df fs = (df', fs', Shown (Success_msg m))" for df' fs' m
  proof -
    let ?sel = "selectbox (map (\<lambda>r. r ''Memo Number'') (rows df)) (selection f)"
    from preview_page_success(1) [OF p] obtain i
      where fb: "forward_button e now f ?sel i df fs = (df', fs', Shown (Success_msg m))"
      by blast
    have i: "i < length (rows df)" and d: "df' = forward_update now f i df"
      using forward_button_success [OF fb] by simp_all
    have "(rows df' ! i) ''Status'' = Scalar (Str (''Forwarded to '' @ forward_to f))"
      using i by (simp add: d rows_forward_update)
    then show ?thesis using i by blast
  qed
  have c: "(rows df' ! j) ''Status'' = (rows df ! j) ''Status''
         \<or> (rows df' ! j) ''Status'' = Scalar (Str (''Forwarded to '' @ forward_to f))"
    if "preview_page e now f pressed df fs = (df', fs', out) \<and> j < length (rows df)"
    for pressed df' fs' out j
    using that status_after_page by blast
  show ?thesis using a b c by blast
qed

theorem preview_page_only_forwards_witness:
  "preview_page env_ok ''2025-01-06 10:00'' forward_1 False (load_memos fs_logged) fs_logged
     = (load_memos fs_logged, fs_logged, Idle)
   \<and> preview_page env_ok ''2025-01-06 10:00'' forward_1 True (load_memos fs_logged) fs_logged
     = (forward_update ''2025-01-06 10:00'' forward_1 0 (load_memos fs_logged), fs_forwarded_1,
        Shown (Success_msg ''Memo forwarded/replied to Registry successfully!''))
   \<and> (\<exists>i<length (rows (load_memos fs_logged)).
         (rows (forward_update ''2025-01-06 10:00'' forward_1 0 (load_memos fs_logged)) ! i) ''Status''
           = Scalar (Str ''Forwarded to Registry''))"
proof -
  let ?df = "load_memos fs_logged"
  have t: "preview_page env_ok ''2025-01-06 10:00'' forward_1 True ?df fs_logged
     = (forward_update ''2025-01-06 10:00'' forward_1 0 ?df, fs_forwarded_1,
        Shown (Success_msg ''Memo forwarded/replied to Registry successfully!''))"
    using script_forward_1 by (simp add: preview_script_def)
  obtain d s out where p: "preview_page env_ok ''2025-01-06 10:00'' forward_1 False ?df fs_logged
     = (d, s, out)"
    by (rule prod_cases3)
  have o: "out = Idle"
    using p t by (auto simp: preview_page_def Let_def split: if_splits option.splits)
  have f: "forward_to forward_1 = ''Registry''" by (simp add: forward_1_def)
  note inst = preview_page_only_forwards
    [where e = env_ok and now = "''2025-01-06 10:00''" and f = forward_1 and df = ?df
       and fs = fs_logged]
  have "d = ?df \<and> s = fs_logged" using inst p by blast
  moreover have "\<exists>i<length (rows ?df).
         (rows (forward_update ''2025-01-06 10:00'' forward_1 0 ?df) ! i) ''Status''
           = Scalar (Str ''Forwarded to Registry'')"
    using inst t f by force
  ultimately show ?thesis using p o t by simp
qed

subsection \<open>Writes that fail\<close>

lemma stamp_Inr:
  assumes "stamp_pdf_with_memo_number e p n fs1 = Inr (q, fs2)"
  shows "\<exists>b. files fs1 p = Some b \<and> q = replace ''.pdf'' ''_stamped.pdf'' p \<and> q \<noteq> p
           \<and> can_write e q \<and> fs2 = fs1\<lparr>files := (files fs1)(q \<mapsto> Stamped b n)\<rparr>"
  using assms
  by (auto simp: stamp_pdf_with_memo_number_def Let_def split: option.splits if_splits sum.splits
      dest!: write_file_Inr)

lemma save_button_outcome:
  assumes "save_button e n f fs = (fs', out)"
  shows "(\<exists>x. out = Raised x) \<or> (\<exists>m. out = Shown (Error_msg m) \<and> fs' = fs)
       \<or> out = Shown (Success_msg ''Memo logged successfully!'')"
  using assms
  by (auto simp: save_button_def Let_def split: if_splits option.splits sum.splits prod.splits)

lemma save_button_steps:
  assumes "save_button e n f fs = (fs', Shown (Success_msg m))"
  shows "\<exists>name buf fs1 fs2. uploaded_file f = Some (name, buf)
           \<and> write_file e (scanned_path n name) (Uploaded buf) fs = Inr fs1
           \<and> (if lower (split_last CHR ''.'' name) = ''pdf''
               then \<exists>q. stamp_pdf_with_memo_number e (scanned_path n name) n fs1 = Inr (q, fs2)
               else fs2 = fs1)
           \<and> save_memo_record e (memo_data n f) fs2 = Inr fs'"
  using assms
  by (auto simp: save_button_def Let_def split: if_splits option.splits sum.splits prod.splits)

lemma dict_get_memo_number: "dict_get (memo_data n f) ''Memo Number'' = Str n"
  by (simp add: memo_data_def dict_update_def dict_get_def)

lemma save_button_written:
  assumes "save_button e n f fs = (fs', Shown (Success_msg m))"
  shows "\<exists>name buf. uploaded_file f = Some (name, buf)
           \<and> files fs' (scanned_path n name) = Some (Uploaded buf)
           \<and> (lower (split_last CHR ''.'' name) = ''pdf'' \<longrightarrow>
                files fs' (replace ''.pdf'' ''_stamped.pdf'' (scanned_path n name))
                  = Some (Stamped (Uploaded buf) n))
           \<and> (\<exists>fs2. save_memo_record e (memo_data n f) fs2 = Inr fs')"
proof -
  from save_button_steps [OF assms] obtain name buf fs1 fs2
    where u: "uploaded_file f = Some (name, buf)"
      and w: "write_file e (scanned_path n name) (Uploaded buf) fs = Inr fs1"
      and st: "if lower (split_last CHR ''.'' name) = ''pdf''
               then \<exists>q. stamp_pdf_with_memo_number e (scanned_path n name) n fs1 = Inr (q, fs2)
               else fs2 = fs1"
      and s: "save_memo_record e (memo_data n f) fs2 = Inr fs'"
    by blast
  let ?p = "scanned_path n name"
  let ?q = "replace ''.pdf'' ''_stamped.pdf'' ?p"
  have f1: "files fs1 ?p = Some (Uploaded buf)"
    using write_file_Inr [OF w] by simp
  have f2: "files fs2 ?p = Some (Uploaded buf)
      \<and> (lower (split_last CHR ''.'' name) = ''pdf'' \<longrightarrow> files fs2 ?q = Some (Stamped (Uploaded buf) n))"
  proof (cases "lower (split_last CHR ''.'' name) = ''pdf''")
    case True
    with st obtain q where "stamp_pdf_with_memo_number e ?p n fs1 = Inr (q, fs2)" by auto
    from stamp_Inr [OF this] f1 show ?thesis by auto
  next
    case False
    with st f1 show ?thesis by simp
  qed
  have "files fs' = files fs2"
    using s by (auto simp: save_memo_record_def Let_def dest!: to_excel_Inr)
  with f2 u s show ?thesis by auto
qed

lemma save_button_unwritable:
  assumes "strip (title f) \<noteq> []" and "uploaded_file f = Some (name, buf)"
    and "\<not> can_write e (scanned_path n name) \<or> \<not> can_write e memo_file"
  shows "\<exists>x. snd (save_button e n f fs) = Raised x"
  using assms
  by (auto simp: save_button_def Let_def write_file_def save_memo_record_def to_excel_def
      split: sum.splits prod.splits)

lemma forward_button_outcome:
  assumes "forward_button e now g sel i df fs = (df', fs', out)"
  shows "(\<exists>x. out = Raised x) \<or> (\<exists>m. out = Shown (Success_msg m))"
  using assms
  by (auto simp: forward_button_def Let_def split: if_splits option.splits sum.splits prod.splits)

lemma forward_button_unwritable:
  assumes "\<not> can_write e memo_file
     \<or> (\<exists>name buf. uploaded_attachment g = Some (name, buf) \<and> \<not> can_write e (attachment_path sel name))"
  shows "\<exists>x. snd (snd (forward_button e now g sel i df fs)) = Raised x"
  using assms
  by (auto simp: forward_button_def Let_def write_file_def to_excel_def split: option.splits)

text \<open>
  C5. No write is guarded. The Save Memo Record button ends in a raise, in an error message
  with the files as they were, or in the success message with the scanned file, the stamped
  copy of a PDF and the new record all written; a path that cannot be written makes it raise.
  The Forward/Reply button ends in a raise or in the success message with the attachment and
  the records file written; a path that cannot be written makes it raise. Neither tries a
  write a second time, and a raise leaves the files as they were at that moment.
\<close>

theorem writes_complete_or_raise:
  "(\<forall>fs' out. save_button e n f fs = (fs', out) \<longrightarrow>
       (\<exists>x. out = Raised x) \<or> (\<exists>m. out = Shown (Error_msg m) \<and> fs' = fs)
     \<or> (out = Shown (Success_msg ''Memo logged successfully!'')
        \<and> (\<exists>name buf y. uploaded_file f = Some (name, buf)
              \<and> files fs' (scanned_path n name) = Some (Uploaded buf)
              \<and> (lower (split_last CHR ''.'' name) = ''pdf'' \<longrightarrow>
                    files fs' (replace ''.pdf'' ''_stamped.pdf'' (scanned_path n name))
                      = Some (Stamped (Uploaded buf) n))
              \<and> workbook fs' = Some y \<and> last (rows y) ''Memo Number'' = Str n)))
   \<and> (\<forall>name buf. strip (title f) \<noteq> [] \<and> uploaded_file f = Some (name, buf)
          \<and> (\<not> can_write e (scanned_path n name) \<or> \<not> can_write e memo_file) \<longrightarrow>
          (\<exists>x. snd (save_button e n f fs) = Raised x))
   \<and> (\<forall>df' fs' out. forward_button e now g sel i df fs = (df', fs', out) \<longrightarrow>
       (\<exists>x. out = Raised x)
     \<or> (\<exists>m. out = Shown (Success_msg m) \<and> df' = forward_update now g i df
            \<and> workbook fs' = Some (excel_frame df')
            \<and> (\<forall>name buf. uploaded_attachment g = Some (name, buf) \<longrightarrow>
                  files fs' (attachment_path sel name) = Some (Uploaded buf))))
   \<and> (\<not> can_write e memo_file
        \<or> (\<exists>name buf. uploaded_attachment g = Some (name, buf)
               \<and> \<not> can_write e (attachment_path sel name)) \<longrightarrow>
        (\<exists>x. snd (snd (forward_button e now g sel i df fs)) = Raised x))"
proof -
  have a: "(\<exists>x. out = Raised x) \<or> (\<exists>m. out = Shown (Error_msg m) \<and> fs' = fs)
     \<or> (out = Shown (Success_msg ''Memo logged successfully!'')
        \<and> (\<exists>name buf y. uploaded_file f = Some (name, buf)
              \<and> files fs' (scanned_path n name) = Some (Uploaded buf)
              \<and> (lower (split_last CHR ''.'' name) = ''pdf'' \<longrightarrow>
                    files fs' (replace ''.pdf'' ''_stamped.pdf'' (scanned_path n name))
                      = Some (Stamped (Uploaded buf) n))
              \<and> workbook fs' = Some y \<and> last (rows y) ''Memo Number'' = Str n))"
    if s: "save_button e n f fs = (fs', out)" for fs' out
  proof (cases "out = Shown (Success_msg ''Memo logged successfully!'')")
    case True
    then have s': "save_button e n f fs = (fs', Shown (Success_msg ''Memo logged successfully!''))"
      using s by simp
    from save_button_written [OF s'] obtain name buf fs2
      where u: "uploaded_file f = Some (name, buf)"
        and p: "files fs' (scanned_path n name) = Some (Uploaded buf)"
        and q: "lower (split_last CHR ''.'' name) = ''pdf'' \<longrightarrow>
                files fs' (replace ''.pdf'' ''_stamped.pdf'' (scanned_path n name))
                  = Some (Stamped (Uploaded buf) n)"
        and r: "save_memo_record e (memo_data n f) fs2 = Inr fs'"
      by blast
    from save_memo_record_stored [OF r] obtain y where y: "workbook fs' = Some y"
      and l: "\<forall>c. last (rows y) c
              = (let v = dict_get (memo_data n f) c
                 in if c = ''History'' \<and> v = Missing then Str ''[]'' else v)"
      by blast
    have "last (rows y) ''Memo Number'' = Str n"
      using l by (simp add: dict_get_memo_number)
    with True u p q y show ?thesis by blast
  next
    case False
    with save_button_outcome [OF s] show ?thesis by blast
  qed
  have b: "\<exists>x. snd (save_button e n f fs) = Raised x"
    if "strip (title f) \<noteq> [] \<and> uploaded_file f = Some (name, buf)
          \<and> (\<not> can_write e (scanned_path n name) \<or> \<not> can_write e memo_file)" for name buf
    using that save_button_unwritable [of f name buf e n fs] by blast
  have c: "(\<exists>x. out = Raised x)
     \<or> (\<exists>m. out = Shown (Success_msg m) \<and> df' = forward_update now g i df
            \<and> workbook fs' = Some (excel_frame df')
            \<and> (\<forall>name buf. uploaded_attachment g = Some (name, buf) \<longrightarrow>
                  files fs' (attachment_path sel name) = Some (Uploaded buf)))"
    if s: "forward_button e now g sel i df fs = (df', fs', out)" for df' fs' out
  proof (cases "\<exists>x. out = Raised x")
    case True
    then show ?thesis by blast
  next
    case False
    with forward_button_outcome [OF s] obtain m where m: "out = Shown (Success_msg m)" by blast
    have s': "forward_button e now g sel i df fs = (df', fs', Shown (Success_msg m))"
      using s m by simp
    have "files fs' (attachment_path sel name) = Some (Uploaded buf)"
      if "uploaded_attachment g = Some (name, buf)" for name buf
      using forward_button_success(6) [OF s'] that by simp
    with forward_button_success(3,4) [OF s'] m show ?thesis by blast
  qed
  have d: "\<exists>x. snd (snd (forward_button e now g sel i df fs)) = Raised x"
    if "\<not> can_write e memo_file
        \<or> (\<exists>name buf. uploaded_attachment g = Some (name, buf)
               \<and> \<not> can_write e (attachment_path sel name))"
    using that by (rule forward_button_unwritable)
  show ?thesis using a b c d by blast
qed

theorem writes_complete_or_raise_witness:
  "save_button env_ok ''NITT/DG/2025/3022'' form_internal fs_empty
     = (fs_logged, Shown (Success_msg ''Memo logged successfully!''))
   \<and> (\<exists>y. workbook fs_logged = Some y
          \<and> last (rows y) ''Memo Number'' = Str ''NITT/DG/2025/3022'')
   \<and> \<not> can_write env_readonly memo_file
   \<and> (\<exists>x. snd (save_button env_readonly ''NITT/DG/2025/3022'' form_internal fs_empty) = Raised x)
   \<and> forward_button env_ok ''2025-01-06 10:00'' forward_1 (Scalar (Str ''NITT/DG/2025/3022'')) 0
         (load_memos fs_logged) fs_logged
       = (forward_update ''2025-01-06 10:00'' forward_1 0 (load_memos fs_logged), fs_forwarded_1,
          Shown (Success_msg ''Memo forwarded/replied to Registry successfully!''))
   \<and> workbook fs_forwarded_1
       = Some (excel_frame (forward_update ''2025-01-06 10:00'' forward_1 0 (load_memos fs_logged)))
   \<and> (\<exists>x. snd (snd (forward_button env_readonly ''2025-01-06 10:00'' forward_1
             (Scalar (Str ''NITT/DG/2025/3022'')) 0 (load_memos fs_logged) fs_logged)) = Raised x)"
proof -
  note ok = writes_complete_or_raise
    [where e = env_ok and n = "''NITT/DG/2025/3022''" and f = form_internal and fs = fs_empty]
  note fw = writes_complete_or_raise
    [where e = env_ok and fs = fs_logged and now = "''2025-01-06 10:00''" and g = forward_1
       and sel = "Scalar (Str ''NITT/DG/2025/3022'')" and i = 0 and df = "load_memos fs_logged"]
  note ro = writes_complete_or_raise
    [where e = env_readonly and n = "''NITT/DG/2025/3022''" and f = form_internal
       and fs = fs_empty]
  note rf = writes_complete_or_raise
    [where e = env_readonly and fs = fs_logged and now = "''2025-01-06 10:00''" and g = forward_1
       and sel = "Scalar (Str ''NITT/DG/2025/3022'')" and i = 0 and df = "load_memos fs_logged"]
  have w: "\<not> can_write env_readonly memo_file" by (simp add: env_readonly_def)
  have t: "strip (title form_internal) \<noteq> []"
    and u: "uploaded_file form_internal = Some (''scan.png'', [1, 2, 3])"
    by (simp_all add: form_internal_def strip_def is_space_def)
  have 1: "\<exists>y. workbook fs_logged = Some y
          \<and> last (rows y) ''Memo Number'' = Str ''NITT/DG/2025/3022''"
    using ok save_form_internal by force
  have 2: "\<exists>x. snd (save_button env_readonly ''NITT/DG/2025/3022'' form_internal fs_empty)
      = Raised x"
    using ro w t u by blast
  have 3: "workbook fs_forwarded_1
       = Some (excel_frame (forward_update ''2025-01-06 10:00'' forward_1 0 (load_memos fs_logged)))"
    using fw forward_button_run_1 by force
  have 4: "\<exists>x. snd (snd (forward_button env_readonly ''2025-01-06 10:00'' forward_1
             (Scalar (Str ''NITT/DG/2025/3022'')) 0 (load_memos fs_logged) fs_logged)) = Raised x"
    using rf w by blast
  show ?thesis using save_form_internal 1 w 2 forward_button_run_1 3 4 by blast
qed

text \<open>
  C6. A Forward/Reply that succeeds writes the frame loaded at the start of the script, with the
  selected memo updated and every other row as loaded, over the records file: the file
  afterwards is that frame, it has as many rows as the frame, and the outcome is the same
  whatever the records file held at the time of the write.
\<close>

theorem forward_last_write_wins:
  assumes "preview_page e now f True df fs = (df', fs', Shown (Success_msg m))"
  shows "\<exists>i<length (rows df). df' = forward_update now f i df
           \<and> workbook fs' = Some (excel_frame df')
           \<and> length (rows (excel_frame df')) = length (rows df)
           \<and> (\<forall>j<length (rows df). j \<noteq> i \<longrightarrow> rows df' ! j = rows df ! j)
           \<and> (\<forall>w. preview_page e now f True df (fs\<lparr>workbook := w\<rparr>)
                    = (df', fs', Shown (Success_msg m)))"
proof -
  let ?sel = "selectbox (map (\<lambda>r. r ''Memo Number'') (rows df)) (selection f)"
  from preview_page_success(1) [OF assms] obtain i
    where fi: "first_index (\<lambda>r. cell_eq (r ''Memo Number'') ?sel) (rows df) = Some i"
      and fb: "forward_button e now f ?sel i df fs = (df', fs', Shown (Success_msg m))"
    by blast
  have i: "i < length (rows df)" and d: "df' = forward_update now f i df"
    and w: "workbook fs' = Some (excel_frame df')"
    using forward_button_success [OF fb] by simp_all
  have l: "length (rows (excel_frame df')) = length (rows df)"
    using i by (simp add: excel_frame_def d length_rows_forward_update)
  have o: "rows df' ! j = rows df ! j" if "j < length (rows df)" "j \<noteq> i" for j
    using that i by (simp add: d rows_forward_update)
  have ne: "\<not> frame_empty df" and mn: "''Memo Number'' \<in> set (columns df)"
    and sh: "show_scanned e ?sel fs = None"
    using preview_page_success(2-4) [OF assms] by simp_all
  have "preview_page e now f True df (fs\<lparr>workbook := v\<rparr>) = (df', fs', Shown (Success_msg m))" for v
    using ne mn fi sh forward_button_workbook [OF fb, of v]
    by (simp add: preview_page_def Let_def show_scanned_workbook frame_empty_def)
  then show ?thesis using i d w l o by blast
qed

theorem forward_last_write_wins_witness:
  "preview_page env_ok ''2025-01-06 10:00'' forward_1 True (load_memos fs_logged) fs_logged
     = (forward_update ''2025-01-06 10:00'' forward_1 0 (load_memos fs_logged), fs_forwarded_1,
        Shown (Success_msg ''Memo forwarded/replied to Registry successfully!''))
   \<and> preview_page env_ok ''2025-01-06 10:00'' forward_1 True (load_memos fs_logged)
        (fs_logged\<lparr>workbook := Some workbook_v1\<rparr>)
     = (forward_update ''2025-01-06 10:00'' forward_1 0 (load_memos fs_logged), fs_forwarded_1,
        Shown (Success_msg ''Memo forwarded/replied to Registry successfully!''))"
proof -
  have h: "preview_page env_ok ''2025-01-06 10:00'' forward_1 True (load_memos fs_logged) fs_logged
     = (forward_update ''2025-01-06 10:00'' forward_1 0 (load_memos fs_logged), fs_forwarded_1,
        Shown (Success_msg ''Memo forwarded/replied to Registry successfully!''))"
    using script_forward_1 by (simp add: preview_script_def)
  from forward_last_write_wins [OF h] show ?thesis using h by blast
qed

lemma History_stored_not_missing:
  "\<forall>r \<in> set (rows (excel_frame (ensure_history df))). r ''History'' \<noteq> Missing"
  by (auto simp: rows_excel_ensure_history stored_row_def excel_cell_def isna_def split: cell.splits)

text \<open>
  C7 (as amended). \<open>load_memos\<close> gives every row a History: the empty list where the column
  or the cell is missing, the stored value otherwise. After \<open>save_memo_record\<close> the records
  file has a History column and no row with a missing History. The dashboard adds a Current
  Location column to a frame with rows that has none.
\<close>

theorem history_column_on_demand:
  "(\<forall>x. workbook fs = Some x \<longrightarrow>
       ''History'' \<in> set (columns (load_memos fs))
     \<and> length (rows (load_memos fs)) = length (rows x)
     \<and> (\<forall>i<length (rows x). (rows (load_memos fs) ! i) ''History''
           = (if stored_at x i ''History'' = Missing then PyList []
              else Scalar (stored_at x i ''History''))))
   \<and> (\<forall>fs'. save_memo_record e data fs = Inr fs' \<longrightarrow>
         (\<exists>y. workbook fs' = Some y \<and> ''History'' \<in> set (columns y)
            \<and> (\<forall>r \<in> set (rows y). r ''History'' \<noteq> Missing)))
   \<and> (\<not> frame_empty (load_memos fs) \<longrightarrow>
         ''Current Location'' \<in> set (columns (dashboard_frame fs)))"
proof -
  have a: "''History'' \<in> set (columns (load_memos fs))
     \<and> length (rows (load_memos fs)) = length (rows x)
     \<and> (\<forall>i<length (rows x). (rows (load_memos fs) ! i) ''History''
           = (if stored_at x i ''History'' = Missing then PyList []
              else Scalar (stored_at x i ''History'')))" if x: "workbook fs = Some x" for x
    by (simp add: columns_load_memos [OF x] rows_load_memos [OF x] stored_at_def)
  have b: "\<exists>y. workbook fs' = Some y \<and> ''History'' \<in> set (columns y)
            \<and> (\<forall>r \<in> set (rows y). r ''History'' \<noteq> Missing)"
    if s: "save_memo_record e data fs = Inr fs'" for fs'
  proof -
    let ?df = "case workbook fs of Some x \<Rightarrow> pd_concat (read_excel x) (DataFrame data) | None \<Rightarrow> DataFrame data"
    have "workbook fs' = Some (excel_frame (ensure_history ?df))"
      using s by (auto simp: save_memo_record_def Let_def dest!: to_excel_Inr)
    moreover have "''History'' \<in> set (columns (excel_frame (ensure_history ?df)))"
      by (simp add: excel_frame_def columns_ensure_history)
    ultimately show ?thesis using History_stored_not_missing [of ?df] by blast
  qed
  have c: "''Current Location'' \<in> set (columns (dashboard_frame fs))"
    if "\<not> frame_empty (load_memos fs)"
    using that by (simp add: dashboard_frame_def Let_def)
  show ?thesis using a b c by blast
qed

theorem history_column_on_demand_witness:
  "workbook fs_v1 = Some workbook_v1
   \<and> ''History'' \<notin> set (columns workbook_v1)
   \<and> ''History'' \<in> set (columns (load_memos fs_v1))
   \<and> (rows (load_memos fs_v1) ! 0) ''History'' = PyList []
   \<and> \<not> frame_empty (load_memos fs_v1)
   \<and> ''Current Location'' \<in> set (columns (dashboard_frame fs_v1))
   \<and> (\<exists>y. workbook (fs_v1\<lparr>workbook := Some (excel_frame (ensure_history
              (pd_concat (read_excel workbook_v1)
                 (DataFrame [(''Memo Number'', Str ''NITT/DG/2025/3022'')]))))\<rparr>) = Some y
          \<and> (\<forall>r \<in> set (rows y). r ''History'' \<noteq> Missing))"
proof -
  let ?d = "[(''Memo Number'', Str ''NITT/DG/2025/3022'')]"
  let ?fs' = "fs_v1\<lparr>workbook := Some (excel_frame (ensure_history
              (pd_concat (read_excel workbook_v1) (DataFrame ?d))))\<rparr>"
  note inst = history_column_on_demand [where fs = fs_v1 and e = env_ok and data = ?d]
  have x: "workbook fs_v1 = Some workbook_v1" by (simp add: fs_v1_def)
  have c: "''History'' \<notin> set (columns workbook_v1)" by (simp add: workbook_v1_def)
  have l: "0 < length (rows workbook_v1)" by (simp add: workbook_v1_def)
  have m: "stored_at workbook_v1 0 ''History'' = Missing"
    using c by (simp add: stored_at_def)
  have h: "save_memo_record env_ok ?d fs_v1 = Inr ?fs'"
    by (simp add: save_memo_record_def to_excel_def env_ok_def fs_v1_def)
  have ne: "\<not> frame_empty (load_memos fs_v1)"
    by (simp add: frame_empty_def load_memos_def x ensure_history_def read_excel_def
        workbook_v1_def)
  have 1: "''History'' \<in> set (columns (load_memos fs_v1))" using inst x by blast
  have "\<forall>i<length (rows workbook_v1). (rows (load_memos fs_v1) ! i) ''History''
           = (if stored_at workbook_v1 i ''History'' = Missing then PyList []
              else Scalar (stored_at workbook_v1 i ''History''))"
    using inst x by blast
  then have 2: "(rows (load_memos fs_v1) ! 0) ''History'' = PyList []"
    using l m by simp
  have 3: "''Current Location'' \<in> set (columns (dashboard_frame fs_v1))" using inst ne by blast
  have 4: "\<exists>y. workbook ?fs' = Some y \<and> (\<forall>r \<in> set (rows y). r ''History'' \<noteq> Missing)"
    using inst h by blast
  show ?thesis using x c 1 2 ne 3 4 by blast
qed

text \<open>
  C7 as it is written fails: the History that \<open>load_memos\<close> returns for the memo just logged
  is the text \<open>[]\<close>, not a list.
\<close>

theorem history_not_a_list_counterexample:
  "save_button env_ok ''NITT/DG/2025/3022'' form_internal fs_empty
     = (fs_logged, Shown (Success_msg ''Memo logged successfully!''))
   \<and> (rows (load_memos fs_logged) ! 0) ''History'' = Scalar (Str ''[]'')
   \<and> \<not> is_list ((rows (load_memos fs_logged) ! 0) ''History'')"
  by (simp add: loaded_logged is_list_def save_form_internal)

end
